theory Spec2Isabelle
  imports Complex_Main "HOL-Library.List_Lexorder" "HOL-Library.Char_ord"
begin

section \<open>Entities\<close>

text \<open>
  Amounts and balances are JavaScript numbers held in \<open>decimal(15,2)\<close> columns. They are
  modelled as exact rationals: binary floating point and the column's scale are not part of
  the model, which therefore agrees with the program on amounts of at most two decimals.
\<close>

type_synonym money = rat

datatype TransactionType = DEPOSIT | WITHDRAWAL | TRANSFER

datatype TransactionStatus = PENDING | COMPLETED | FAILED

text \<open>
  Modelled from the spec: the User entity (\<open>entities/user.entity.ts\<close> is not among the
  sources). Only the two columns the transaction service reads are kept: the primary key and
  the e-mail address that resolves a transfer's recipient.
\<close>

record User =
  id :: string
  email :: string

text \<open>
  \<open>entities/transaction.entity.ts\<close>. The generated primary key (a uuid) is a sequence
  number, \<open>createdAt\<close> a logical timestamp. The entity declares \<open>balanceAfter\<close> and no
  \<open>balanceBefore\<close> column. Nullable columns are options.
\<close>

record Transaction =
  id :: nat
  userId :: string
  type :: TransactionType
  amount :: money
  status :: TransactionStatus
  description :: "string option"
  recipientUserId :: "string option"
  balanceAfter :: "money option"
  createdAt :: nat

text \<open>The Balance entity (\<open>entities/balance.entity.ts\<close>).\<close>

record Balance =
  id :: nat
  userId :: string
  transactionId :: "nat option"
  balanceBefore :: money
  balanceAfter :: money
  description :: "string option"
  createdAt :: nat

text \<open>
  The object literal the service hands to \<open>manager.create(Transaction, ...)\<close>. It names a
  \<open>balanceBefore\<close> property; \<open>recipientUserId\<close> is present for transfers only.
\<close>

record TransactionPlain =
  userId :: string
  type :: TransactionType
  amount :: money
  status :: TransactionStatus
  description :: string
  recipientUserId :: "string option"
  balanceBefore :: money
  balanceAfter :: money

text \<open>The object literal handed to \<open>manager.create(Balance, ...)\<close>.\<close>

record BalancePlain =
  userId :: string
  transactionId :: nat
  balanceBefore :: money
  balanceAfter :: money
  description :: string

section \<open>Requests (\<open>dto/transaction.dto.ts\<close>)\<close>

record DepositDto =
  amount :: money
  description :: "string option"

record WithdrawDto =
  amount :: money
  description :: "string option"

record TransferDto =
  recipientEmail :: string
  amount :: money
  description :: "string option"

text \<open>
  The class-validator decorators of the three request classes. \<open>IsNumber\<close> with
  \<open>maxDecimalPlaces: k\<close> accepts a number whose decimal expansion stops after \<open>k\<close> digits.
\<close>

definition IsNumber_maxDecimalPlaces :: "nat \<Rightarrow> money \<Rightarrow> bool" where
  "IsNumber_maxDecimalPlaces k x = (frac (x * 10 ^ k) = 0)"

definition IsPositive :: "money \<Rightarrow> bool" where
  "IsPositive x = (0 < x)"

definition Min_value :: "money \<Rightarrow> money \<Rightarrow> bool" where
  "Min_value lo x = (lo \<le> x)"

definition Max_value :: "money \<Rightarrow> money \<Rightarrow> bool" where
  "Max_value hi x = (x \<le> hi)"

definition violated :: "bool \<Rightarrow> string \<Rightarrow> string list" where
  "violated ok message = (if ok then [] else [message])"

definition validate_DepositDto :: "DepositDto \<Rightarrow> string list" where
  "validate_DepositDto dto =
     violated (IsNumber_maxDecimalPlaces 2 (DepositDto.amount dto))
       ''amount must be a number conforming to the specified constraints'' @
     violated (IsPositive (DepositDto.amount dto)) ''Amount must be a positive number'' @
     violated (Min_value (1 / 100) (DepositDto.amount dto)) ''Minimum deposit amount is 0.01'' @
     violated (Max_value 1000000 (DepositDto.amount dto)) ''Maximum deposit amount is 1,000,000''"

definition validate_WithdrawDto :: "WithdrawDto \<Rightarrow> string list" where
  "validate_WithdrawDto dto =
     violated (IsNumber_maxDecimalPlaces 2 (WithdrawDto.amount dto))
       ''amount must be a number conforming to the specified constraints'' @
     violated (IsPositive (WithdrawDto.amount dto)) ''Amount must be a positive number'' @
     violated (Min_value (1 / 100) (WithdrawDto.amount dto)) ''Minimum withdrawal amount is 0.01'' @
     violated (Max_value 1000000 (WithdrawDto.amount dto)) ''Maximum withdrawal amount is 1,000,000''"

definition validate_TransferDto :: "TransferDto \<Rightarrow> string list" where
  "validate_TransferDto dto =
     violated (IsNumber_maxDecimalPlaces 2 (TransferDto.amount dto))
       ''amount must be a number conforming to the specified constraints'' @
     violated (IsPositive (TransferDto.amount dto)) ''Amount must be a positive number'' @
     violated (Min_value (1 / 100) (TransferDto.amount dto)) ''Minimum transfer amount is 0.01'' @
     violated (Max_value 1000000 (TransferDto.amount dto)) ''Maximum transfer amount is 1,000,000''"

section \<open>Errors and observable effects\<close>

text \<open>
  \<open>ValidationException\<close> is the \<open>BadRequestException\<close> the global \<open>ValidationPipe\<close> raises,
  carrying the messages of the violated constraints.
\<close>

datatype error =
    NotFoundException string
  | BadRequestException string
  | ValidationException "string list"

datatype AuditAction =
    BALANCE_CHANGE | PASSWORD_RESET | EMAIL_VERIFIED | TRANSACTION_CREATED
  | USER_REGISTERED | LOGIN

datatype details =
    BalanceChange money money money string
  | TransactionCreated nat string money

text \<open>
  What an operation does besides returning, in program order: the storage transaction's
  boundaries, the row locks taken by \<open>pessimistic_write\<close> reads (held until the storage
  transaction ends), the rows inserted, the audit logger's lines and the mails handed to the
  transporter.
\<close>

datatype event =
    Begin
  | Lock string
  | Insert_Transaction nat
  | Insert_Balance nat
  | Audit_log AuditAction string details
  | Audit_warn AuditAction string details
  | SendMail string string
  | Logger_log string
  | Logger_error string
  | Commit
  | Rollback

section \<open>The store\<close>

text \<open>
  The three tables, rows in insertion order, and the clock that stamps \<open>createdAt\<close>.
  Operations run one after another; every storage transaction gets a later timestamp than
  the one before it.
\<close>

record store =
  users :: "User list"
  transactions :: "Transaction list"
  balances :: "Balance list"
  clock :: nat

definition findOne_User_by_id :: "store \<Rightarrow> string \<Rightarrow> User option" where
  "findOne_User_by_id m uid = find (\<lambda>u. User.id u = uid) (users m)"

definition findOne_User_by_email :: "store \<Rightarrow> string \<Rightarrow> User option" where
  "findOne_User_by_email m addr = find (\<lambda>u. User.email u = addr) (users m)"

text \<open>The first row under \<open>order: { createdAt: 'DESC' }\<close>: a row of greatest timestamp.\<close>

fun newest :: "Balance list \<Rightarrow> Balance option" where
  "newest [] = None"
| "newest (b # bs) =
     (case newest bs of
        None \<Rightarrow> Some b
      | Some c \<Rightarrow> if Balance.createdAt b < Balance.createdAt c then Some c else Some b)"

definition findOne_Balance_latest :: "store \<Rightarrow> string \<Rightarrow> Balance option" where
  "findOne_Balance_latest m uid = newest (filter (\<lambda>b. Balance.userId b = uid) (balances m))"

text \<open>
  \<open>manager.create\<close> copies the properties that are columns of the entity; the generated
  columns are filled in by \<open>manager.save\<close>, which inserts the row.
\<close>

definition create_Transaction :: "TransactionPlain \<Rightarrow> nat \<Rightarrow> nat \<Rightarrow> Transaction" where
  "create_Transaction p new_id now =
     \<lparr>Transaction.id = new_id,
      Transaction.userId = TransactionPlain.userId p,
      Transaction.type = TransactionPlain.type p,
      Transaction.amount = TransactionPlain.amount p,
      Transaction.status = TransactionPlain.status p,
      Transaction.description = Some (TransactionPlain.description p),
      Transaction.recipientUserId = TransactionPlain.recipientUserId p,
      Transaction.balanceAfter = Some (TransactionPlain.balanceAfter p),
      Transaction.createdAt = now\<rparr>"

definition create_Balance :: "BalancePlain \<Rightarrow> nat \<Rightarrow> nat \<Rightarrow> Balance" where
  "create_Balance p new_id now =
     \<lparr>Balance.id = new_id,
      Balance.userId = BalancePlain.userId p,
      Balance.transactionId = Some (BalancePlain.transactionId p),
      Balance.balanceBefore = BalancePlain.balanceBefore p,
      Balance.balanceAfter = BalancePlain.balanceAfter p,
      Balance.description = Some (BalancePlain.description p),
      Balance.createdAt = now\<rparr>"

definition save_Transaction :: "(nat \<Rightarrow> nat \<Rightarrow> Transaction) \<Rightarrow> store \<Rightarrow> Transaction \<times> store" where
  "save_Transaction entity m =
     (let row = entity (length (transactions m)) (clock m)
      in (row, m\<lparr>transactions := transactions m @ [row]\<rparr>))"

definition save_Balance :: "(nat \<Rightarrow> nat \<Rightarrow> Balance) \<Rightarrow> store \<Rightarrow> Balance \<times> store" where
  "save_Balance entity m =
     (let row = entity (length (balances m)) (clock m)
      in (row, m\<lparr>balances := balances m @ [row]\<rparr>))"

text \<open>
  \<open>dataSource.transaction(callback)\<close>: the callback's writes are kept when it returns and
  discarded when it throws; either way the storage transaction ends and its row locks go.
\<close>

definition dataSource_transaction ::
  "(store \<Rightarrow> (error + 'a) \<times> store \<times> event list) \<Rightarrow> store \<Rightarrow> (error + 'a) \<times> store \<times> event list" where
  "dataSource_transaction callback db =
     (case callback db of
        (Inr v, m, evs) \<Rightarrow> (Inr v, m\<lparr>clock := Suc (clock db)\<rparr>, [Begin] @ evs @ [Commit])
      | (Inl e, m, evs) \<Rightarrow> (Inl e, db\<lparr>clock := Suc (clock db)\<rparr>, [Begin] @ evs @ [Rollback]))"

section \<open>Collaborators\<close>

text \<open>\<open>services/audit.service.ts\<close>: every entry is logged, two kinds are logged again as warnings.\<close>

definition AuditService_log :: "AuditAction \<Rightarrow> string \<Rightarrow> details \<Rightarrow> event list" where
  "AuditService_log action uid d =
     [Audit_log action uid d] @
     (if List.member [BALANCE_CHANGE, PASSWORD_RESET] action then [Audit_warn action uid d] else [])"

definition logBalanceChange :: "string \<Rightarrow> money \<Rightarrow> money \<Rightarrow> string \<Rightarrow> event list" where
  "logBalanceChange uid oldBalance newBalance reason =
     AuditService_log BALANCE_CHANGE uid
       (BalanceChange oldBalance newBalance (newBalance - oldBalance) reason)"

definition logTransaction :: "string \<Rightarrow> nat \<Rightarrow> string \<Rightarrow> money \<Rightarrow> event list" where
  "logTransaction uid tid kind amt = AuditService_log TRANSACTION_CREATED uid (TransactionCreated tid kind amt)"

text \<open>
  The e-mail service. The transporter, when there is one, is the predicate that says for
  which address \<open>sendMail\<close> succeeds. \<open>sendTransactionConfirmationEmail\<close> catches a failed
  delivery itself, so its promise is fulfilled on every path. The mail is handed to the
  transporter during the call; the logger line for its outcome follows at some later time
  and is listed right after it.
\<close>

record EmailService =
  isEmailConfigured :: bool
  transporter :: "(string \<Rightarrow> bool) option"

datatype promise = Fulfilled | Rejected

definition sendTransactionConfirmationEmail ::
  "EmailService \<Rightarrow> string \<Rightarrow> string \<Rightarrow> money \<Rightarrow> money \<Rightarrow> promise \<times> event list" where
  "sendTransactionConfirmationEmail es addr transactionType amt balance =
     (case transporter es of
        None \<Rightarrow> (Fulfilled, [])
      | Some sendMail \<Rightarrow>
          if \<not> isEmailConfigured es then (Fulfilled, [])
          else if sendMail addr
          then (Fulfilled,
                [SendMail addr (''Transaction Confirmation: '' @ transactionType),
                 Logger_log (''Transaction confirmation email sent to '' @ addr)])
          else (Fulfilled,
                [SendMail addr (''Transaction Confirmation: '' @ transactionType),
                 Logger_error (''Failed to send transaction confirmation email to '' @ addr)]))"

text \<open>\<open>promise.catch(error => this.logger.error(message, error))\<close>, not awaited.\<close>

definition catch_error :: "promise \<times> event list \<Rightarrow> string \<Rightarrow> event list" where
  "catch_error p message =
     snd p @ (case fst p of Fulfilled \<Rightarrow> [] | Rejected \<Rightarrow> [Logger_error message])"

text \<open>\<open>description || fallback\<close>: a missing or empty description gives the fallback.\<close>

definition or_default :: "string option \<Rightarrow> string \<Rightarrow> string" where
  "or_default d fallback = (case d of None \<Rightarrow> fallback | Some s \<Rightarrow> if s = [] then fallback else s)"

text \<open>\<open>latest ? Number(latest.balanceAfter) : 0\<close>.\<close>

definition balance_or_zero :: "Balance option \<Rightarrow> money" where
  "balance_or_zero latest = (case latest of Some b \<Rightarrow> Balance.balanceAfter b | None \<Rightarrow> 0)"

section \<open>The transaction service (\<open>services/transaction.service.ts\<close>)\<close>

definition deposit_callback ::
  "EmailService \<Rightarrow> string \<Rightarrow> DepositDto \<Rightarrow> store \<Rightarrow> (error + Transaction) \<times> store \<times> event list" where
  "deposit_callback es uid depositDto m =
     (case findOne_User_by_id m uid of
        None \<Rightarrow> (Inl (NotFoundException ''User not found''), m, [])
      | Some user \<Rightarrow>
          (let latestBalance = findOne_Balance_latest m uid;
               balanceBefore = balance_or_zero latestBalance;
               balanceAfter = balanceBefore + DepositDto.amount depositDto;
               transaction = create_Transaction
                 \<lparr>TransactionPlain.userId = uid,
                  TransactionPlain.type = DEPOSIT,
                  TransactionPlain.amount = DepositDto.amount depositDto,
                  TransactionPlain.status = COMPLETED,
                  TransactionPlain.description = or_default (DepositDto.description depositDto) ''Deposit'',
                  TransactionPlain.recipientUserId = None,
                  TransactionPlain.balanceBefore = balanceBefore,
                  TransactionPlain.balanceAfter = balanceAfter\<rparr>;
               (savedTransaction, m1) = save_Transaction transaction m;
               balance = create_Balance
                 \<lparr>BalancePlain.userId = uid,
                  BalancePlain.transactionId = Transaction.id savedTransaction,
                  BalancePlain.balanceBefore = balanceBefore,
                  BalancePlain.balanceAfter = balanceAfter,
                  BalancePlain.description = or_default (DepositDto.description depositDto) ''Deposit''\<rparr>;
               (savedBalance, m2) = save_Balance balance m1
           in (Inr savedTransaction, m2,
               [Lock uid,
                Insert_Transaction (Transaction.id savedTransaction),
                Insert_Balance (Balance.id savedBalance)] @
               logBalanceChange uid balanceBefore balanceAfter ''Deposit'' @
               logTransaction uid (Transaction.id savedTransaction) ''DEPOSIT'' (DepositDto.amount depositDto) @
               catch_error
                 (sendTransactionConfirmationEmail es (User.email user) ''Deposit''
                    (DepositDto.amount depositDto) balanceAfter)
                 ''Failed to send deposit confirmation email'')))"

definition deposit ::
  "EmailService \<Rightarrow> string \<Rightarrow> DepositDto \<Rightarrow> store \<Rightarrow> (error + Transaction) \<times> store \<times> event list" where
  "deposit es uid depositDto = dataSource_transaction (deposit_callback es uid depositDto)"

definition withdraw_callback ::
  "EmailService \<Rightarrow> string \<Rightarrow> WithdrawDto \<Rightarrow> store \<Rightarrow> (error + Transaction) \<times> store \<times> event list" where
  "withdraw_callback es uid withdrawDto m =
     (case findOne_User_by_id m uid of
        None \<Rightarrow> (Inl (NotFoundException ''User not found''), m, [])
      | Some user \<Rightarrow>
          (let latestBalance = findOne_Balance_latest m uid;
               balanceBefore = balance_or_zero latestBalance;
               withdrawalAmount = WithdrawDto.amount withdrawDto
           in if balanceBefore < withdrawalAmount
              then (Inl (BadRequestException ''Insufficient funds''), m, [Lock uid])
              else
                (let balanceAfter = balanceBefore - withdrawalAmount;
                     transaction = create_Transaction
                       \<lparr>TransactionPlain.userId = uid,
                        TransactionPlain.type = WITHDRAWAL,
                        TransactionPlain.amount = withdrawalAmount,
                        TransactionPlain.status = COMPLETED,
                        TransactionPlain.description =
                          or_default (WithdrawDto.description withdrawDto) ''Withdrawal'',
                        TransactionPlain.recipientUserId = None,
                        TransactionPlain.balanceBefore = balanceBefore,
                        TransactionPlain.balanceAfter = balanceAfter\<rparr>;
                     (savedTransaction, m1) = save_Transaction transaction m;
                     balance = create_Balance
                       \<lparr>BalancePlain.userId = uid,
                        BalancePlain.transactionId = Transaction.id savedTransaction,
                        BalancePlain.balanceBefore = balanceBefore,
                        BalancePlain.balanceAfter = balanceAfter,
                        BalancePlain.description =
                          or_default (WithdrawDto.description withdrawDto) ''Withdrawal''\<rparr>;
                     (savedBalance, m2) = save_Balance balance m1
                 in (Inr savedTransaction, m2,
                     [Lock uid,
                      Insert_Transaction (Transaction.id savedTransaction),
                      Insert_Balance (Balance.id savedBalance)] @
                     logBalanceChange uid balanceBefore balanceAfter ''Withdrawal'' @
                     logTransaction uid (Transaction.id savedTransaction) ''WITHDRAWAL'' withdrawalAmount @
                     catch_error
                       (sendTransactionConfirmationEmail es (User.email user) ''Withdrawal''
                          withdrawalAmount balanceAfter)
                       ''Failed to send withdrawal confirmation email''))))"

definition withdraw ::
  "EmailService \<Rightarrow> string \<Rightarrow> WithdrawDto \<Rightarrow> store \<Rightarrow> (error + Transaction) \<times> store \<times> event list" where
  "withdraw es uid withdrawDto = dataSource_transaction (withdraw_callback es uid withdrawDto)"

definition transfer_callback ::
  "EmailService \<Rightarrow> string \<Rightarrow> TransferDto \<Rightarrow> store \<Rightarrow> (error + Transaction) \<times> store \<times> event list" where
  "transfer_callback es uid transferDto m =
     (case findOne_User_by_email m (TransferDto.recipientEmail transferDto) of
        None \<Rightarrow> (Inl (NotFoundException ''Recipient not found''), m, [])
      | Some recipient \<Rightarrow>
          if User.id recipient = uid
          then (Inl (BadRequestException ''Cannot transfer to yourself''), m, [])
          else
            (case findOne_User_by_id m uid of
               None \<Rightarrow> (Inl (NotFoundException ''Sender not found''), m, [])
             | Some sender \<Rightarrow>
                 (case findOne_User_by_id m (User.id recipient) of
                    None \<Rightarrow> (Inl (NotFoundException ''Recipient not found''), m, [Lock uid])
                  | Some recipientLocked \<Rightarrow>
                      (let transferAmount = TransferDto.amount transferDto;
                           senderLatestBalance = findOne_Balance_latest m uid;
                           recipientLatestBalance = findOne_Balance_latest m (User.id recipient);
                           senderBalanceBefore = balance_or_zero senderLatestBalance;
                           recipientBalanceBefore = balance_or_zero recipientLatestBalance
                       in if senderBalanceBefore < transferAmount
                          then (Inl (BadRequestException ''Insufficient funds''), m,
                                [Lock uid, Lock (User.id recipient)])
                          else
                            (let senderBalanceAfter = senderBalanceBefore - transferAmount;
                                 recipientBalanceAfter = recipientBalanceBefore + transferAmount;
                                 transaction = create_Transaction
                                   \<lparr>TransactionPlain.userId = uid,
                                    TransactionPlain.type = TRANSFER,
                                    TransactionPlain.amount = transferAmount,
                                    TransactionPlain.status = COMPLETED,
                                    TransactionPlain.description =
                                      or_default (TransferDto.description transferDto)
                                        (''Transfer to '' @ TransferDto.recipientEmail transferDto),
                                    TransactionPlain.recipientUserId = Some (User.id recipient),
                                    TransactionPlain.balanceBefore = senderBalanceBefore,
                                    TransactionPlain.balanceAfter = senderBalanceAfter\<rparr>;
                                 (savedTransaction, m1) = save_Transaction transaction m;
                                 senderBalance = create_Balance
                                   \<lparr>BalancePlain.userId = uid,
                                    BalancePlain.transactionId = Transaction.id savedTransaction,
                                    BalancePlain.balanceBefore = senderBalanceBefore,
                                    BalancePlain.balanceAfter = senderBalanceAfter,
                                    BalancePlain.description =
                                      or_default (TransferDto.description transferDto)
                                        (''Transfer to '' @ TransferDto.recipientEmail transferDto)\<rparr>;
                                 (savedSenderBalance, m2) = save_Balance senderBalance m1;
                                 recipientTransaction = create_Transaction
                                   \<lparr>TransactionPlain.userId = User.id recipient,
                                    TransactionPlain.type = TRANSFER,
                                    TransactionPlain.amount = transferAmount,
                                    TransactionPlain.status = COMPLETED,
                                    TransactionPlain.description =
                                      or_default (TransferDto.description transferDto)
                                        (''Transfer from '' @ User.email sender),
                                    TransactionPlain.recipientUserId = Some uid,
                                    TransactionPlain.balanceBefore = recipientBalanceBefore,
                                    TransactionPlain.balanceAfter = recipientBalanceAfter\<rparr>;
                                 (savedRecipientTransaction, m3) = save_Transaction recipientTransaction m2;
                                 recipientBalance = create_Balance
                                   \<lparr>BalancePlain.userId = User.id recipient,
                                    BalancePlain.transactionId = Transaction.id savedRecipientTransaction,
                                    BalancePlain.balanceBefore = recipientBalanceBefore,
                                    BalancePlain.balanceAfter = recipientBalanceAfter,
                                    BalancePlain.description =
                                      or_default (TransferDto.description transferDto)
                                        (''Transfer from '' @ User.email sender)\<rparr>;
                                 (savedRecipientBalance, m4) = save_Balance recipientBalance m3
                             in (Inr savedTransaction, m4,
                                 [Lock uid, Lock (User.id recipient),
                                  Insert_Transaction (Transaction.id savedTransaction),
                                  Insert_Balance (Balance.id savedSenderBalance)] @
                                 logBalanceChange uid senderBalanceBefore senderBalanceAfter ''Transfer'' @
                                 logTransaction uid (Transaction.id savedTransaction) ''TRANSFER'' transferAmount @
                                 [Insert_Transaction (Transaction.id savedRecipientTransaction),
                                  Insert_Balance (Balance.id savedRecipientBalance)] @
                                 catch_error
                                   (sendTransactionConfirmationEmail es (User.email sender) ''Transfer''
                                      transferAmount senderBalanceAfter)
                                   ''Failed to send transfer confirmation email to sender'' @
                                 catch_error
                                   (sendTransactionConfirmationEmail es (User.email recipient)
                                      ''Transfer Received'' transferAmount recipientBalanceAfter)
                                   ''Failed to send transfer confirmation email to recipient''))))))"

definition transfer ::
  "EmailService \<Rightarrow> string \<Rightarrow> TransferDto \<Rightarrow> store \<Rightarrow> (error + Transaction) \<times> store \<times> event list" where
  "transfer es uid transferDto = dataSource_transaction (transfer_callback es uid transferDto)"

text \<open>
  \<open>getTransactions\<close>: one query, no lookup of the user. \<open>skip\<close> and \<open>take\<close> drop and keep
  a prefix of the ordered rows. What the database makes of an offset or a limit below zero
  is not in the source; here such a count drops or keeps nothing. Rows of equal timestamp
  come out latest insertion first.
\<close>

record TransactionPage =
  transactions :: "Transaction list"
  total :: nat
  page :: int
  limit :: int



section \<open>The controller (\<open>controllers/transaction.controller.ts\<close>)\<close>

text \<open>
  The three mutating routes. The global \<open>ValidationPipe\<close> of \<open>app.module.ts\<close> checks the
  request body against its class before the handler runs; the handler passes the
  authenticated user's id and the body to the service.
\<close>

datatype request =
    POST_deposit DepositDto
  | POST_withdraw WithdrawDto
  | POST_transfer TransferDto

fun ValidationPipe :: "request \<Rightarrow> string list" where
  "ValidationPipe (POST_deposit dto) = validate_DepositDto dto"
| "ValidationPipe (POST_withdraw dto) = validate_WithdrawDto dto"
| "ValidationPipe (POST_transfer dto) = validate_TransferDto dto"

fun TransactionService ::
  "EmailService \<Rightarrow> string \<Rightarrow> request \<Rightarrow> store \<Rightarrow> (error + Transaction) \<times> store \<times> event list" where
  "TransactionService es uid (POST_deposit dto) db = deposit es uid dto db"
| "TransactionService es uid (POST_withdraw dto) db = withdraw es uid dto db"
| "TransactionService es uid (POST_transfer dto) db = transfer es uid dto db"

definition TransactionController ::
  "EmailService \<Rightarrow> User \<Rightarrow> request \<Rightarrow> store \<Rightarrow> (error + Transaction) \<times> store \<times> event list" where
  "TransactionController es user req db =
     (case ValidationPipe req of
        [] \<Rightarrow> TransactionService es (User.id user) req db
      | message # messages \<Rightarrow> (Inl (ValidationException (message # messages)), db, []))"

section \<open>Observing an operation\<close>

abbreviation result :: "'r \<times> store \<times> event list \<Rightarrow> 'r" where
  "result out \<equiv> fst out"

abbreviation after :: "'r \<times> store \<times> event list \<Rightarrow> store" where
  "after out \<equiv> fst (snd out)"

abbreviation trace :: "'r \<times> store \<times> event list \<Rightarrow> event list" where
  "trace out \<equiv> snd (snd out)"

text \<open>An account's balance: \<open>balanceAfter\<close> of its latest Balance row, 0 without one.\<close>

definition current_balance :: "store \<Rightarrow> string \<Rightarrow> money" where
  "current_balance db uid = balance_or_zero (findOne_Balance_latest db uid)"

text \<open>Every stored Balance row was stamped by an earlier storage transaction.\<close>

definition stamped :: "store \<Rightarrow> bool" where
  "stamped db = list_all (\<lambda>b. Balance.createdAt b < clock db) (balances db)"

text \<open>The row locks of a trace, in the order they were taken.\<close>

fun lock_order :: "event list \<Rightarrow> string list" where
  "lock_order [] = []"
| "lock_order (Lock u # evs) = u # lock_order evs"
| "lock_order (e # evs) = lock_order evs"





section \<open>Sequences of requests\<close>

fun cash :: "request \<Rightarrow> bool" where
  "cash (POST_deposit dto) = True"
| "cash (POST_withdraw dto) = True"
| "cash (POST_transfer dto) = False"

fun deposited :: "request \<Rightarrow> money" where
  "deposited (POST_deposit dto) = DepositDto.amount dto"
| "deposited r = 0"

fun withdrawn :: "request \<Rightarrow> money" where
  "withdrawn (POST_withdraw dto) = WithdrawDto.amount dto"
| "withdrawn r = 0"

fun request_amount :: "request \<Rightarrow> money" where
  "request_amount (POST_deposit dto) = DepositDto.amount dto"
| "request_amount (POST_withdraw dto) = WithdrawDto.amount dto"
| "request_amount (POST_transfer dto) = TransferDto.amount dto"

text \<open>The store after a user's requests, served one after another.\<close>

fun run :: "EmailService \<Rightarrow> User \<Rightarrow> request list \<Rightarrow> store \<Rightarrow> store" where
  "run es user [] db = db"
| "run es user (r # rs) db = run es user rs (after (TransactionController es user r db))"

text \<open>The requests among them that returned a transaction.\<close>

fun accepted :: "EmailService \<Rightarrow> User \<Rightarrow> request list \<Rightarrow> store \<Rightarrow> request list" where
  "accepted es user [] db = []"
| "accepted es user (r # rs) db =
     (case result (TransactionController es user r db) of
        Inr t \<Rightarrow> r # accepted es user rs (after (TransactionController es user r db))
      | Inl e \<Rightarrow> accepted es user rs (after (TransactionController es user r db)))"

text \<open>The user's balance after each request.\<close>

fun balance_history :: "EmailService \<Rightarrow> User \<Rightarrow> request list \<Rightarrow> store \<Rightarrow> money list" where
  "balance_history es user [] db = []"
| "balance_history es user (r # rs) db =
     current_balance (after (TransactionController es user r db)) (User.id user) #
     balance_history es user rs (after (TransactionController es user r db))"

section \<open>Sample data\<close>

definition alice :: User where
  "alice = \<lparr>User.id = ''A'', User.email = ''a@example.com''\<rparr>"

definition bob :: User where
  "bob = \<lparr>User.id = ''B'', User.email = ''b@example.com''\<rparr>"

definition no_mail :: EmailService where
  "no_mail = \<lparr>isEmailConfigured = False, transporter = None\<rparr>"

definition mail_down :: EmailService where
  "mail_down = \<lparr>isEmailConfigured = True, transporter = Some (\<lambda>addr. False)\<rparr>"

definition unfunded :: store where
  "unfunded = \<lparr>users = [alice, bob], store.transactions = [], balances = [], clock = 0\<rparr>"

text \<open>Alice holds 100.00 after one deposit, Bob nothing.\<close>

definition funded :: store where
  "funded =
     \<lparr>users = [alice, bob],
      store.transactions =
        [\<lparr>Transaction.id = 0, Transaction.userId = ''A'', Transaction.type = DEPOSIT,
          Transaction.amount = 100, Transaction.status = COMPLETED,
          Transaction.description = Some ''Deposit'', Transaction.recipientUserId = None,
          Transaction.balanceAfter = Some 100, Transaction.createdAt = 0\<rparr>],
      balances =
        [\<lparr>Balance.id = 0, Balance.userId = ''A'', Balance.transactionId = Some 0,
          Balance.balanceBefore = 0, Balance.balanceAfter = 100,
          Balance.description = Some ''Deposit'', Balance.createdAt = 0\<rparr>],
      clock = 1\<rparr>"

text \<open>Bob holds the 100.00 after Alice has sent them to him.\<close>

definition settled :: store where
  "settled = after (transfer no_mail ''A''
     \<lparr>recipientEmail = ''b@example.com'', amount = 100, description = None\<rparr> funded)"

text \<open>Four requests: a deposit, an overdraft, a negative deposit and a withdrawal.\<close>

definition sample_requests :: "request list" where
  "sample_requests =
     [POST_deposit \<lparr>DepositDto.amount = 100, description = None\<rparr>,
      POST_withdraw \<lparr>WithdrawDto.amount = 150, description = None\<rparr>,
      POST_deposit \<lparr>DepositDto.amount = - 5, description = None\<rparr>,
      POST_withdraw \<lparr>WithdrawDto.amount = 30, description = None\<rparr>]"

section \<open>Unfolding lemmas\<close>

lemmas service_defs = dataSource_transaction_def save_Transaction_def save_Balance_def
  create_Transaction_def create_Balance_def or_default_def

lemmas lookup_defs = findOne_User_by_id_def findOne_User_by_email_def findOne_Balance_latest_def
  balance_or_zero_def current_balance_def

lemmas sample_defs = funded_def unfunded_def alice_def bob_def no_mail_def mail_down_def

lemmas controller_defs = TransactionController_def validate_DepositDto_def validate_WithdrawDto_def
  validate_TransferDto_def violated_def IsNumber_maxDecimalPlaces_def IsPositive_def Min_value_def
  Max_value_def deposit_def deposit_callback_def withdraw_def withdraw_callback_def
  transfer_def transfer_callback_def

lemmas sink_defs = logBalanceChange_def logTransaction_def AuditService_log_def catch_error_def
  sendTransactionConfirmationEmail_def

section \<open>The store's lookups\<close>

lemma newest_snoc:
  "list_all (\<lambda>c. Balance.createdAt c < Balance.createdAt b) bs \<Longrightarrow> newest (bs @ [b]) = Some b"
  by (induction bs) auto

lemma newest_latest_row:
  assumes "stamped db" and "Balance.userId b = uid" and "Balance.createdAt b = clock db"
  shows "newest (filter (\<lambda>c. Balance.userId c = uid) (balances db) @ [b]) = Some b"
proof (rule newest_snoc)
  from assms(1) have "list_all (\<lambda>c. Balance.createdAt c < clock db) (balances db)"
    by (simp add: stamped_def)
  then show "list_all (\<lambda>c. Balance.createdAt c < Balance.createdAt b)
      (filter (\<lambda>c. Balance.userId c = uid) (balances db))"
    using assms(3) by (simp add: list_all_iff)
qed

lemma find_other_key:
  "find P xs = Some x \<Longrightarrow> Q x \<Longrightarrow> \<exists>y. find Q xs = Some y"
  by (induction xs) (auto split: if_splits)

text \<open>A user found by e-mail address is found again by id.\<close>

lemma recipient_locked:
  "findOne_User_by_email db addr = Some r \<Longrightarrow> \<exists>y. findOne_User_by_id db (User.id r) = Some y"
  unfolding findOne_User_by_email_def findOne_User_by_id_def
  by (rule find_other_key) simp_all

lemma current_balance_same:
  "balances db' = balances db \<Longrightarrow> current_balance db' u = current_balance db u"
  by (simp add: current_balance_def findOne_Balance_latest_def)

lemma current_balance_snoc:
  assumes "stamped db" and "balances db' = balances db @ [b]"
    and "Balance.userId b = u" and "Balance.createdAt b = clock db"
  shows "current_balance db' u = Balance.balanceAfter b"
  using assms newest_latest_row [OF assms(1), of b u]
  by (simp add: current_balance_def findOne_Balance_latest_def balance_or_zero_def)

lemma current_balance_snoc2:
  assumes "stamped db" and "balances db' = balances db @ [b1, b2]"
    and "Balance.userId b1 = u1" and "Balance.createdAt b1 = clock db"
    and "Balance.userId b2 = u2" and "Balance.createdAt b2 = clock db"
    and "u1 \<noteq> u2"
  shows "current_balance db' u1 = Balance.balanceAfter b1"
    and "current_balance db' u2 = Balance.balanceAfter b2"
  using assms newest_latest_row [OF assms(1), of b1 u1] newest_latest_row [OF assms(1), of b2 u2]
  by (simp_all add: current_balance_def findOne_Balance_latest_def balance_or_zero_def)

lemma stamped_grow:
  assumes "stamped db" and "balances db' = balances db @ bs"
    and "list_all (\<lambda>b. Balance.createdAt b = clock db) bs" and "clock db' = Suc (clock db)"
  shows "stamped db'"
  using assms by (auto simp add: stamped_def list_all_iff less_Suc_eq)

section \<open>The validators\<close>

lemma violated_Nil: "violated ok message = [] \<longleftrightarrow> ok"
  by (simp add: violated_def)

lemma validate_DepositDto_Nil:
  "validate_DepositDto dto = [] \<longleftrightarrow>
     IsNumber_maxDecimalPlaces 2 (DepositDto.amount dto) \<and> 0 < DepositDto.amount dto \<and>
     1 / 100 \<le> DepositDto.amount dto \<and> DepositDto.amount dto \<le> 1000000"
  by (simp add: validate_DepositDto_def violated_Nil IsPositive_def Min_value_def Max_value_def)

lemma validate_WithdrawDto_Nil:
  "validate_WithdrawDto dto = [] \<longleftrightarrow>
     IsNumber_maxDecimalPlaces 2 (WithdrawDto.amount dto) \<and> 0 < WithdrawDto.amount dto \<and>
     1 / 100 \<le> WithdrawDto.amount dto \<and> WithdrawDto.amount dto \<le> 1000000"
  by (simp add: validate_WithdrawDto_def violated_Nil IsPositive_def Min_value_def Max_value_def)

lemma validate_TransferDto_Nil:
  "validate_TransferDto dto = [] \<longleftrightarrow>
     IsNumber_maxDecimalPlaces 2 (TransferDto.amount dto) \<and> 0 < TransferDto.amount dto \<and>
     1 / 100 \<le> TransferDto.amount dto \<and> TransferDto.amount dto \<le> 1000000"
  by (simp add: validate_TransferDto_def violated_Nil IsPositive_def Min_value_def Max_value_def)

section \<open>What each mutation stores\<close>


lemma deposit_rows:
  assumes "findOne_User_by_id db uid = Some user"
  shows "\<exists>t b.
     result (deposit es uid dto db) = Inr t \<and>
     store.transactions (after (deposit es uid dto db)) = store.transactions db @ [t] \<and>
     balances (after (deposit es uid dto db)) = balances db @ [b] \<and>
     clock (after (deposit es uid dto db)) = Suc (clock db) \<and>
     Transaction.userId t = uid \<and> Transaction.type t = DEPOSIT \<and>
     Transaction.status t = COMPLETED \<and> Transaction.amount t = DepositDto.amount dto \<and>
     Transaction.balanceAfter t = Some (current_balance db uid + DepositDto.amount dto) \<and>
     Balance.userId b = uid \<and> Balance.createdAt b = clock db \<and>
     Balance.transactionId b = Some (Transaction.id t) \<and>
     Balance.balanceBefore b = current_balance db uid \<and>
     Balance.balanceAfter b = current_balance db uid + DepositDto.amount dto"
  using assms
  by (simp add: deposit_def deposit_callback_def service_defs current_balance_def Let_def)

lemma deposit_unknown_user:
  assumes "findOne_User_by_id db uid = None"
  shows "result (deposit es uid dto db) = Inl (NotFoundException ''User not found'') \<and>
     store.transactions (after (deposit es uid dto db)) = store.transactions db \<and>
     balances (after (deposit es uid dto db)) = balances db \<and>
     clock (after (deposit es uid dto db)) = Suc (clock db)"
  using assms by (simp add: deposit_def deposit_callback_def service_defs)


lemma withdraw_rows:
  assumes "findOne_User_by_id db uid = Some user"
    and "\<not> current_balance db uid < WithdrawDto.amount dto"
  shows "\<exists>t b.
     result (withdraw es uid dto db) = Inr t \<and>
     store.transactions (after (withdraw es uid dto db)) = store.transactions db @ [t] \<and>
     balances (after (withdraw es uid dto db)) = balances db @ [b] \<and>
     clock (after (withdraw es uid dto db)) = Suc (clock db) \<and>
     Balance.userId b = uid \<and> Balance.createdAt b = clock db \<and>
     Balance.balanceBefore b = current_balance db uid \<and>
     Balance.balanceAfter b = current_balance db uid - WithdrawDto.amount dto"
  using assms
  by (simp add: withdraw_def withdraw_callback_def service_defs current_balance_def Let_def)

lemma withdraw_refused:
  assumes "findOne_User_by_id db uid = None \<or> current_balance db uid < WithdrawDto.amount dto"
  shows "(\<exists>e. result (withdraw es uid dto db) = Inl e) \<and>
     store.transactions (after (withdraw es uid dto db)) = store.transactions db \<and>
     balances (after (withdraw es uid dto db)) = balances db \<and>
     clock (after (withdraw es uid dto db)) = Suc (clock db)"
  using assms
  by (auto simp add: withdraw_def withdraw_callback_def service_defs current_balance_def Let_def
      split: option.splits)

lemma transfer_accepted:
  assumes "result (transfer es uid dto db) = Inr t"
  shows "\<exists>recipient sender.
     findOne_User_by_email db (TransferDto.recipientEmail dto) = Some recipient \<and>
     User.id recipient \<noteq> uid \<and> findOne_User_by_id db uid = Some sender \<and>
     \<not> current_balance db uid < TransferDto.amount dto"
  using assms
  by (simp add: transfer_def transfer_callback_def dataSource_transaction_def Let_def
      case_prod_beta current_balance_def split: option.splits if_splits)

lemma transfer_rows:
  assumes "findOne_User_by_email db (TransferDto.recipientEmail dto) = Some recipient"
    and "User.id recipient \<noteq> uid"
    and "findOne_User_by_id db uid = Some sender"
    and "\<not> current_balance db uid < TransferDto.amount dto"
  shows "\<exists>t1 t2 b1 b2.
     result (transfer es uid dto db) = Inr t1 \<and>
     store.transactions (after (transfer es uid dto db)) = store.transactions db @ [t1, t2] \<and>
     balances (after (transfer es uid dto db)) = balances db @ [b1, b2] \<and>
     clock (after (transfer es uid dto db)) = Suc (clock db) \<and>
     Transaction.userId t1 = uid \<and> Transaction.recipientUserId t1 = Some (User.id recipient) \<and>
     Transaction.userId t2 = User.id recipient \<and> Transaction.recipientUserId t2 = Some uid \<and>
     Transaction.status t1 = COMPLETED \<and> Transaction.status t2 = COMPLETED \<and>
     Balance.userId b1 = uid \<and> Balance.createdAt b1 = clock db \<and>
     Balance.balanceAfter b1 = current_balance db uid - TransferDto.amount dto \<and>
     Balance.userId b2 = User.id recipient \<and> Balance.createdAt b2 = clock db \<and>
     Balance.balanceAfter b2 = current_balance db (User.id recipient) + TransferDto.amount dto"
proof -
  from recipient_locked [OF assms(1)] obtain y where "findOne_User_by_id db (User.id recipient) = Some y"
    by blast
  then show ?thesis
    using assms
    by (simp add: transfer_def transfer_callback_def service_defs current_balance_def Let_def)
qed

text \<open>Every mutation keeps the store stamped: new rows carry the clock's reading, which then advances.\<close>

lemma stamped_deposit: "stamped db \<Longrightarrow> stamped (after (deposit es uid dto db))"
proof (cases "findOne_User_by_id db uid")
  case None
  assume s: "stamped db"
  from deposit_unknown_user [OF None, of es dto] show ?thesis
    by (intro stamped_grow [OF s, of _ "[]"]) simp_all
next
  case (Some user)
  assume s: "stamped db"
  from deposit_rows [OF Some, of es dto] obtain t b where
    "balances (after (deposit es uid dto db)) = balances db @ [b]"
    "clock (after (deposit es uid dto db)) = Suc (clock db)" "Balance.createdAt b = clock db"
    by blast
  then show ?thesis by (intro stamped_grow [OF s, of _ "[b]"]) simp_all
qed

lemma stamped_withdraw: "stamped db \<Longrightarrow> stamped (after (withdraw es uid dto db))"
proof (cases "findOne_User_by_id db uid = None \<or> current_balance db uid < WithdrawDto.amount dto")
  case True
  assume s: "stamped db"
  from withdraw_refused [OF True, of es] show ?thesis
    by (intro stamped_grow [OF s, of _ "[]"]) simp_all
next
  case False
  assume s: "stamped db"
  from False obtain user where "findOne_User_by_id db uid = Some user"
    and "\<not> current_balance db uid < WithdrawDto.amount dto"
    by auto
  from withdraw_rows [OF this, of es] obtain t b where
    "balances (after (withdraw es uid dto db)) = balances db @ [b]"
    "clock (after (withdraw es uid dto db)) = Suc (clock db)" "Balance.createdAt b = clock db"
    by blast
  then show ?thesis by (intro stamped_grow [OF s, of _ "[b]"]) simp_all
qed

lemma transfer_refused:
  assumes "result (transfer es uid dto db) = Inl e"
  shows "balances (after (transfer es uid dto db)) = balances db \<and>
     clock (after (transfer es uid dto db)) = Suc (clock db)"
  using assms
  by (simp add: transfer_def transfer_callback_def dataSource_transaction_def Let_def
      case_prod_beta split: option.splits if_splits)

lemma stamped_transfer: "stamped db \<Longrightarrow> stamped (after (transfer es uid dto db))"
proof (cases "result (transfer es uid dto db)")
  case (Inl e)
  assume s: "stamped db"
  from transfer_refused [OF Inl] show ?thesis
    by (intro stamped_grow [OF s, of _ "[]"]) simp_all
next
  case (Inr t)
  assume s: "stamped db"
  from transfer_accepted [OF Inr] obtain recipient sender where
    "findOne_User_by_email db (TransferDto.recipientEmail dto) = Some recipient"
    "User.id recipient \<noteq> uid" "findOne_User_by_id db uid = Some sender"
    "\<not> current_balance db uid < TransferDto.amount dto"
    by blast
  from transfer_rows [OF this, of es] obtain t1 t2 b1 b2 where
    "balances (after (transfer es uid dto db)) = balances db @ [b1, b2]"
    "clock (after (transfer es uid dto db)) = Suc (clock db)"
    "Balance.createdAt b1 = clock db" "Balance.createdAt b2 = clock db"
    by blast
  then show ?thesis by (intro stamped_grow [OF s, of _ "[b1, b2]"]) simp_all
qed

lemma stamped_TransactionService:
  "stamped db \<Longrightarrow> stamped (after (TransactionService es uid r db))"
  by (cases r) (simp_all add: stamped_deposit stamped_withdraw stamped_transfer)

lemma stamped_TransactionController:
  "stamped db \<Longrightarrow> stamped (after (TransactionController es user r db))"
  by (cases "ValidationPipe r") (simp_all add: TransactionController_def stamped_TransactionService)

section \<open>What each mutation calls\<close>

lemma lock_order_append: "lock_order (xs @ ys) = lock_order xs @ lock_order ys"
  by (induction xs rule: lock_order.induct) simp_all

lemma lock_order_audit:
  "lock_order (logBalanceChange u a b reason) = []"
  "lock_order (logTransaction u n kind amt) = []"
  by (simp_all add: logBalanceChange_def logTransaction_def AuditService_log_def)

lemma lock_order_mail:
  "lock_order (catch_error (sendTransactionConfirmationEmail es addr kind amt bal) message) = []"
  by (simp add: catch_error_def sendTransactionConfirmationEmail_def split: option.split)





section \<open>Transfers are all or nothing\<close>



section \<open>Deposits and withdrawals in sequence\<close>

lemma deposit_step:
  assumes "stamped db"
  shows "case result (TransactionController es user (POST_deposit dto) db) of
        Inl e \<Rightarrow> current_balance (after (TransactionController es user (POST_deposit dto) db)) (User.id user) =
                 current_balance db (User.id user)
      | Inr t \<Rightarrow> current_balance (after (TransactionController es user (POST_deposit dto) db)) (User.id user) =
                 current_balance db (User.id user) + DepositDto.amount dto \<and>
                 0 < DepositDto.amount dto"
proof (cases "validate_DepositDto dto")
  case (Cons m ms)
  then show ?thesis by (simp add: TransactionController_def)
next
  case Nil
  then have pos: "0 < DepositDto.amount dto" by (simp add: validate_DepositDto_Nil)
  have tc: "TransactionController es user (POST_deposit dto) db = deposit es (User.id user) dto db"
    using Nil by (simp add: TransactionController_def)
  show ?thesis
  proof (cases "findOne_User_by_id db (User.id user)")
    case None
    from deposit_unknown_user [OF None, of es dto] have
      r: "result (deposit es (User.id user) dto db) = Inl (NotFoundException ''User not found'')"
        "balances (after (deposit es (User.id user) dto db)) = balances db"
      by simp_all
    show ?thesis unfolding tc using r(1) current_balance_same [OF r(2)] by simp
  next
    case (Some u)
    from deposit_rows [OF Some, of es dto] obtain t b where
      r: "result (deposit es (User.id user) dto db) = Inr t"
        "balances (after (deposit es (User.id user) dto db)) = balances db @ [b]"
        "Balance.userId b = User.id user" "Balance.createdAt b = clock db"
        "Balance.balanceAfter b = current_balance db (User.id user) + DepositDto.amount dto"
      by blast
    have "current_balance (after (deposit es (User.id user) dto db)) (User.id user) =
        current_balance db (User.id user) + DepositDto.amount dto"
      using current_balance_snoc [OF assms r(2) r(3) r(4)] r(5) by simp
    then show ?thesis unfolding tc using r(1) pos by simp
  qed
qed

lemma withdraw_step:
  assumes "stamped db"
  shows "case result (TransactionController es user (POST_withdraw dto) db) of
        Inl e \<Rightarrow> current_balance (after (TransactionController es user (POST_withdraw dto) db)) (User.id user) =
                 current_balance db (User.id user)
      | Inr t \<Rightarrow> current_balance (after (TransactionController es user (POST_withdraw dto) db)) (User.id user) =
                 current_balance db (User.id user) - WithdrawDto.amount dto \<and>
                 WithdrawDto.amount dto \<le> current_balance db (User.id user)"
proof (cases "validate_WithdrawDto dto")
  case (Cons m ms)
  then show ?thesis by (simp add: TransactionController_def)
next
  case Nil
  have tc: "TransactionController es user (POST_withdraw dto) db = withdraw es (User.id user) dto db"
    using Nil by (simp add: TransactionController_def)
  show ?thesis
  proof (cases "findOne_User_by_id db (User.id user) = None \<or>
      current_balance db (User.id user) < WithdrawDto.amount dto")
    case True
    from withdraw_refused [OF True, of es] obtain e where
      r: "result (withdraw es (User.id user) dto db) = Inl e"
        "balances (after (withdraw es (User.id user) dto db)) = balances db"
      by blast
    show ?thesis unfolding tc using r(1) current_balance_same [OF r(2)] by simp
  next
    case False
    then obtain u where u: "findOne_User_by_id db (User.id user) = Some u"
      and enough: "\<not> current_balance db (User.id user) < WithdrawDto.amount dto"
      by auto
    from withdraw_rows [OF u enough, of es] obtain t b where
      r: "result (withdraw es (User.id user) dto db) = Inr t"
        "balances (after (withdraw es (User.id user) dto db)) = balances db @ [b]"
        "Balance.userId b = User.id user" "Balance.createdAt b = clock db"
        "Balance.balanceAfter b = current_balance db (User.id user) - WithdrawDto.amount dto"
      by blast
    have "current_balance (after (withdraw es (User.id user) dto db)) (User.id user) =
        current_balance db (User.id user) - WithdrawDto.amount dto"
      using current_balance_snoc [OF assms r(2) r(3) r(4)] r(5) by simp
    then show ?thesis unfolding tc using r(1) enough by simp
  qed
qed

lemma cash_step:
  assumes "stamped db" and "cash r"
  shows "current_balance (after (TransactionController es user r db)) (User.id user) =
       current_balance db (User.id user) +
       (case result (TransactionController es user r db) of
          Inl e \<Rightarrow> 0 | Inr t \<Rightarrow> deposited r - withdrawn r)"
    and "0 \<le> current_balance db (User.id user) \<Longrightarrow>
       0 \<le> current_balance (after (TransactionController es user r db)) (User.id user)"
proof -
  have "current_balance (after (TransactionController es user r db)) (User.id user) =
       current_balance db (User.id user) +
       (case result (TransactionController es user r db) of
          Inl e \<Rightarrow> 0 | Inr t \<Rightarrow> deposited r - withdrawn r) \<and>
     (0 \<le> current_balance db (User.id user) \<longrightarrow>
       0 \<le> current_balance (after (TransactionController es user r db)) (User.id user))"
  proof (cases r)
    case (POST_deposit dto)
    show ?thesis using deposit_step [OF assms(1), of es user dto] unfolding POST_deposit
      by (cases "result (TransactionController es user (POST_deposit dto) db)") simp_all
  next
    case (POST_withdraw dto)
    show ?thesis using withdraw_step [OF assms(1), of es user dto] unfolding POST_withdraw
      by (cases "result (TransactionController es user (POST_withdraw dto) db)") simp_all
  next
    case (POST_transfer dto)
    then show ?thesis using assms(2) by simp
  qed
  then show "current_balance (after (TransactionController es user r db)) (User.id user) =
       current_balance db (User.id user) +
       (case result (TransactionController es user r db) of
          Inl e \<Rightarrow> 0 | Inr t \<Rightarrow> deposited r - withdrawn r)"
    and "0 \<le> current_balance db (User.id user) \<Longrightarrow>
       0 \<le> current_balance (after (TransactionController es user r db)) (User.id user)"
    by blast+
qed

lemma run_cash:
  assumes "stamped db" and "list_all cash rs"
  shows "current_balance (run es user rs db) (User.id user) =
       current_balance db (User.id user) +
       sum_list (map deposited (accepted es user rs db)) -
       sum_list (map withdrawn (accepted es user rs db)) \<and>
     (0 \<le> current_balance db (User.id user) \<longrightarrow>
        list_all (\<lambda>b. 0 \<le> b) (balance_history es user rs db))"
  using assms
proof (induction rs arbitrary: db)
  case Nil
  then show ?case by simp
next
  case (Cons r rs)
  define db' where "db' = after (TransactionController es user r db)"
  from Cons.prems have c: "cash r" and cs: "list_all cash rs" by simp_all
  have st: "stamped db'"
    unfolding db'_def by (rule stamped_TransactionController [OF Cons.prems(1)])
  note step = cash_step [OF Cons.prems(1) c, where es = es and user = user, folded db'_def]
  note ih = Cons.IH [OF st cs]
  have run: "run es user (r # rs) db = run es user rs db'"
    and hist: "balance_history es user (r # rs) db =
      current_balance db' (User.id user) # balance_history es user rs db'"
    by (simp_all add: db'_def)
  show ?case
  proof (cases "result (TransactionController es user r db)")
    case (Inl e)
    then have acc: "accepted es user (r # rs) db = accepted es user rs db'"
      by (simp add: db'_def)
    from step(1) Inl have "current_balance db' (User.id user) = current_balance db (User.id user)"
      by simp
    with ih step(2) show ?thesis unfolding run hist acc by simp
  next
    case (Inr t)
    then have acc: "accepted es user (r # rs) db = r # accepted es user rs db'"
      by (simp add: db'_def)
    from step(1) Inr have "current_balance db' (User.id user) =
        current_balance db (User.id user) + deposited r - withdrawn r"
      by simp
    with ih step(2) show ?thesis unfolding run hist acc by simp
  qed
qed

text \<open>
  C2. A user's deposit and withdrawal requests are served one after another on a ledger
  without Balance rows (every balance is 0). Afterwards the user's balance is the sum of
  the amounts of the accepted deposits minus the sum of the amounts of the accepted
  withdrawals, and the balance after each request is at least 0. A request is accepted when
  it returns a transaction; the others (refused by validation, for an unknown user or for
  insufficient funds) leave the balance as it was.
\<close>

theorem cash_sequence_balance:
  assumes "balances db = []" and "list_all cash rs"
  shows "current_balance (run es user rs db) (User.id user) =
       sum_list (map deposited (accepted es user rs db)) -
       sum_list (map withdrawn (accepted es user rs db)) \<and>
     list_all (\<lambda>b. 0 \<le> b) (balance_history es user rs db)"
proof -
  have "stamped db" using assms(1) by (simp add: stamped_def)
  moreover have "current_balance db (User.id user) = 0"
    using assms(1) by (simp add: lookup_defs)
  ultimately show ?thesis
    using run_cash [OF _ assms(2), of db es user] by simp
qed

text \<open>
  Alice deposits 100.00, is refused 150.00, is refused a deposit of -5.00 and withdraws
  30.00: she holds 70.00.
\<close>

theorem cash_sequence_balance_witness:
  "balances unfunded = [] \<and>
   list_all cash sample_requests \<and>
   accepted no_mail alice sample_requests unfunded = [sample_requests ! 0, sample_requests ! 3] \<and>
   current_balance (run no_mail alice sample_requests unfunded) (User.id alice) = 100 - 30 \<and>
   balance_history no_mail alice sample_requests unfunded = [100, 100, 100, 70]"
proof -
  have e: "balances unfunded = []" and c: "list_all cash sample_requests"
    by (simp_all add: sample_defs sample_requests_def)
  have a: "accepted no_mail alice sample_requests unfunded =
      [sample_requests ! 0, sample_requests ! 3]"
    by (simp add: sample_requests_def sample_defs controller_defs service_defs lookup_defs Let_def)
  have h: "balance_history no_mail alice sample_requests unfunded = [100, 100, 100, 70]"
    by (simp add: sample_requests_def sample_defs controller_defs service_defs lookup_defs Let_def)
  show ?thesis
    using e c a h cash_sequence_balance [OF e c, of no_mail alice]
    by (simp add: sample_requests_def)
qed

section \<open>The order of a transfer's locks\<close>

text \<open>
  C3, as stated, does not hold: the locks of a transfer are not taken in the sorted order of
  the two user ids. Bob (id \<open>B\<close>) sends Alice (id \<open>A\<close>) 40.00; his row is locked first.
  Nor is there one order for the pair: had Alice sent to Bob, hers would have been first.
\<close>

theorem transfer_locks_not_sorted:
  "\<not> sorted (lock_order (trace (transfer no_mail ''B''
      \<lparr>recipientEmail = ''a@example.com'', amount = 40, description = None\<rparr> settled))) \<and>
   lock_order (trace (transfer no_mail ''B''
      \<lparr>recipientEmail = ''a@example.com'', amount = 40, description = None\<rparr> settled)) \<noteq>
   lock_order (trace (transfer no_mail ''A''
      \<lparr>recipientEmail = ''b@example.com'', amount = 40, description = None\<rparr> settled))"
  by (simp add: settled_def controller_defs service_defs sample_defs lookup_defs Let_def sink_defs)

text \<open>
  C3, amended. A transfer whose recipient resolves to another user and whose sender exists
  takes exactly two row locks, in the caller's order: the sender's row first, then the
  recipient's. The order for a pair of accounts therefore depends on which of them sends.
\<close>

theorem transfer_locks_sender_then_recipient:
  assumes "findOne_User_by_email db (TransferDto.recipientEmail dto) = Some recipient"
    and "User.id recipient \<noteq> uid"
    and "findOne_User_by_id db uid = Some sender"
  shows "lock_order (trace (transfer es uid dto db)) = [uid, User.id recipient]"
proof -
  from recipient_locked [OF assms(1)] obtain y where "findOne_User_by_id db (User.id recipient) = Some y"
    by blast
  then show ?thesis
    using assms
    by (simp add: transfer_def transfer_callback_def service_defs Let_def lock_order_append
        lock_order_audit lock_order_mail)
qed

theorem transfer_locks_sender_then_recipient_witness:
  "findOne_User_by_email settled ''a@example.com'' = Some alice \<and> User.id alice \<noteq> ''B'' \<and>
   findOne_User_by_id settled ''B'' = Some bob \<and>
   lock_order (trace (transfer no_mail ''B''
      \<lparr>recipientEmail = ''a@example.com'', amount = 40, description = None\<rparr> settled)) = [''B'', ''A''] \<and>
   lock_order (trace (transfer no_mail ''A''
      \<lparr>recipientEmail = ''b@example.com'', amount = 40, description = None\<rparr> settled)) = [''A'', ''B'']"
proof -
  have u: "users settled = [alice, bob]"
    by (simp add: settled_def controller_defs service_defs sample_defs lookup_defs Let_def)
  have a: "findOne_User_by_email settled ''a@example.com'' = Some alice" "User.id alice \<noteq> ''B''"
    "findOne_User_by_id settled ''B'' = Some bob"
    and b: "findOne_User_by_email settled ''b@example.com'' = Some bob" "User.id bob \<noteq> ''A''"
    "findOne_User_by_id settled ''A'' = Some alice"
    by (simp_all add: u lookup_defs alice_def bob_def)
  show ?thesis
    using a b
      transfer_locks_sender_then_recipient
        [of settled "\<lparr>recipientEmail = ''a@example.com'', amount = 40, description = None\<rparr>",
         OF _ a(2) a(3), of no_mail]
      transfer_locks_sender_then_recipient
        [of settled "\<lparr>recipientEmail = ''b@example.com'', amount = 40, description = None\<rparr>",
         OF _ b(2) b(3), of no_mail]
    by (simp add: alice_def bob_def)
qed

section \<open>When the audit sink and the mailer are called\<close>




section \<open>Withdrawals\<close>

text \<open>
  C5. For an existing account with balance \<open>b0\<close>: when \<open>b0 - amount < 0\<close>, \<open>withdraw\<close>
  fails with "Insufficient funds", stores no row and leaves the balance at \<open>b0\<close>; otherwise
  it appends exactly one pair, a completed WITHDRAWAL transaction with
  \<open>balanceAfter = b0 - amount\<close> and its Balance row with \<open>balanceBefore = b0\<close> and
  \<open>balanceAfter = b0 - amount\<close>.
\<close>

theorem withdraw_insufficient_or_one_pair:
  assumes "findOne_User_by_id db uid = Some user"
  shows
    "if current_balance db uid - WithdrawDto.amount dto < 0
     then result (withdraw es uid dto db) = Inl (BadRequestException ''Insufficient funds'') \<and>
          store.transactions (after (withdraw es uid dto db)) = store.transactions db \<and>
          balances (after (withdraw es uid dto db)) = balances db \<and>
          current_balance (after (withdraw es uid dto db)) uid = current_balance db uid
     else (\<exists>t b. result (withdraw es uid dto db) = Inr t \<and>
          store.transactions (after (withdraw es uid dto db)) = store.transactions db @ [t] \<and>
          balances (after (withdraw es uid dto db)) = balances db @ [b] \<and>
          Transaction.type t = WITHDRAWAL \<and> Transaction.status t = COMPLETED \<and>
          Transaction.userId t = uid \<and> Transaction.amount t = WithdrawDto.amount dto \<and>
          Transaction.balanceAfter t = Some (current_balance db uid - WithdrawDto.amount dto) \<and>
          Balance.userId b = uid \<and> Balance.transactionId b = Some (Transaction.id t) \<and>
          Balance.balanceBefore b = current_balance db uid \<and>
          Balance.balanceAfter b = current_balance db uid - WithdrawDto.amount dto)"
  using assms
  by (simp add: withdraw_def withdraw_callback_def service_defs current_balance_def
      findOne_Balance_latest_def Let_def)

text \<open>Alice holds 100.00: withdrawing 150.00 is refused, withdrawing 40.00 leaves 60.00.\<close>

theorem withdraw_insufficient_or_one_pair_witness:
  "findOne_User_by_id funded ''A'' = Some alice \<and>
   current_balance funded ''A'' = 100 \<and>
   result (withdraw no_mail ''A'' \<lparr>WithdrawDto.amount = 150, description = None\<rparr> funded) =
     Inl (BadRequestException ''Insufficient funds'') \<and>
   balances (after (withdraw no_mail ''A'' \<lparr>WithdrawDto.amount = 150, description = None\<rparr> funded)) =
     balances funded \<and>
   (\<exists>t b. result (withdraw no_mail ''A'' \<lparr>WithdrawDto.amount = 40, description = None\<rparr> funded) = Inr t \<and>
       balances (after (withdraw no_mail ''A'' \<lparr>WithdrawDto.amount = 40, description = None\<rparr> funded)) =
         balances funded @ [b] \<and>
       Balance.balanceBefore b = 100 \<and> Balance.balanceAfter b = 60)"
proof -
  have user: "findOne_User_by_id funded ''A'' = Some alice"
    by (simp add: sample_defs lookup_defs)
  have bal: "current_balance funded ''A'' = 100"
    by (simp add: sample_defs lookup_defs)
  show ?thesis
    using user bal
      withdraw_insufficient_or_one_pair
        [OF user, of "\<lparr>WithdrawDto.amount = 150, description = None\<rparr>" no_mail]
      withdraw_insufficient_or_one_pair
        [OF user, of "\<lparr>WithdrawDto.amount = 40, description = None\<rparr>" no_mail]
    by auto
qed

section \<open>A transfer moves the amount and conserves the sum\<close>

text \<open>
  C6. After a successful transfer of \<open>x\<close> from an account with balance \<open>a\<close> to the account
  of the recipient with balance \<open>b\<close>, the sender's balance is \<open>a - x\<close>, the recipient's is
  \<open>b + x\<close> and their sum is unchanged. Two Transaction rows are appended, both COMPLETED,
  each naming the other's user as \<open>recipientUserId\<close>. The store is one whose Balance rows
  were stamped by earlier storage transactions, as every store the mutations produce is.
\<close>

theorem transfer_conserves_sum:
  assumes "stamped db" and "result (transfer es uid dto db) = Inr t"
  shows "\<exists>recipient t2.
     findOne_User_by_email db (TransferDto.recipientEmail dto) = Some recipient \<and>
     current_balance (after (transfer es uid dto db)) uid =
       current_balance db uid - TransferDto.amount dto \<and>
     current_balance (after (transfer es uid dto db)) (User.id recipient) =
       current_balance db (User.id recipient) + TransferDto.amount dto \<and>
     current_balance (after (transfer es uid dto db)) uid +
       current_balance (after (transfer es uid dto db)) (User.id recipient) =
       current_balance db uid + current_balance db (User.id recipient) \<and>
     store.transactions (after (transfer es uid dto db)) = store.transactions db @ [t, t2] \<and>
     Transaction.userId t = uid \<and> Transaction.recipientUserId t = Some (User.id recipient) \<and>
     Transaction.userId t2 = User.id recipient \<and> Transaction.recipientUserId t2 = Some uid \<and>
     Transaction.status t = COMPLETED \<and> Transaction.status t2 = COMPLETED"
proof -
  from transfer_accepted [OF assms(2)] obtain recipient sender where
    c: "findOne_User_by_email db (TransferDto.recipientEmail dto) = Some recipient"
      "User.id recipient \<noteq> uid" "findOne_User_by_id db uid = Some sender"
      "\<not> current_balance db uid < TransferDto.amount dto"
    by blast
  from transfer_rows [OF c, of es] obtain t1 t2 b1 b2 where
    r: "result (transfer es uid dto db) = Inr t1"
      "store.transactions (after (transfer es uid dto db)) = store.transactions db @ [t1, t2]"
      "balances (after (transfer es uid dto db)) = balances db @ [b1, b2]"
      "Transaction.userId t1 = uid" "Transaction.recipientUserId t1 = Some (User.id recipient)"
      "Transaction.userId t2 = User.id recipient" "Transaction.recipientUserId t2 = Some uid"
      "Transaction.status t1 = COMPLETED" "Transaction.status t2 = COMPLETED"
      "Balance.userId b1 = uid" "Balance.createdAt b1 = clock db"
      "Balance.balanceAfter b1 = current_balance db uid - TransferDto.amount dto"
      "Balance.userId b2 = User.id recipient" "Balance.createdAt b2 = clock db"
      "Balance.balanceAfter b2 = current_balance db (User.id recipient) + TransferDto.amount dto"
    by blast
  have t: "t1 = t" using r(1) assms(2) by simp
  have ne: "uid \<noteq> User.id recipient" using c(2) by blast
  note bal = current_balance_snoc2 [OF assms(1) r(3) r(10) r(11) r(13) r(14) ne]
  show ?thesis
    using c(1) r t bal by (intro exI [of _ recipient] exI [of _ t2]) simp
qed

text \<open>Alice, holding 100.00, sends all of it to Bob, who held nothing.\<close>

theorem transfer_conserves_sum_witness:
  "stamped funded \<and>
   (\<exists>t. result (transfer mail_down ''A''
      \<lparr>recipientEmail = ''b@example.com'', amount = 100, description = None\<rparr> funded) = Inr t) \<and>
   current_balance funded ''A'' = 100 \<and> current_balance funded ''B'' = 0 \<and>
   current_balance (after (transfer mail_down ''A''
      \<lparr>recipientEmail = ''b@example.com'', amount = 100, description = None\<rparr> funded)) ''A'' = 0 \<and>
   current_balance (after (transfer mail_down ''A''
      \<lparr>recipientEmail = ''b@example.com'', amount = 100, description = None\<rparr> funded)) ''B'' = 100"
proof -
  define dto where "dto = \<lparr>recipientEmail = ''b@example.com'', amount = 100, description = None\<rparr>"
  have s: "stamped funded" by (simp add: stamped_def sample_defs)
  have b: "current_balance funded ''A'' = 100" "current_balance funded ''B'' = 0"
    "findOne_User_by_email funded ''b@example.com'' = Some bob"
    by (simp_all add: sample_defs lookup_defs)
  obtain t where t: "result (transfer mail_down ''A'' dto funded) = Inr t"
    by (simp add: dto_def controller_defs service_defs sample_defs lookup_defs Let_def)
  from transfer_conserves_sum [OF s t] b show ?thesis
    unfolding dto_def [symmetric] using s t by (auto simp add: dto_def bob_def)
qed

section \<open>What a deposit stores\<close>

text \<open>
  C7. Alice holds 100.00 and deposits 50.00. The deposit stores one pair and returns a
  COMPLETED DEPOSIT transaction with \<open>balanceAfter = 150\<close>; the opening balance 100 is on
  the Balance row only. The service names \<open>balanceBefore\<close> when it creates the transaction,
  but the entity has no such column, and the created entity is the same whatever value
  is named.
\<close>

theorem deposit_transaction_without_balanceBefore:
  "result (deposit no_mail ''A'' \<lparr>DepositDto.amount = 50, description = None\<rparr> funded) =
     Inr \<lparr>Transaction.id = 1, Transaction.userId = ''A'', Transaction.type = DEPOSIT,
          Transaction.amount = 50, Transaction.status = COMPLETED,
          Transaction.description = Some ''Deposit'', Transaction.recipientUserId = None,
          Transaction.balanceAfter = Some 150, Transaction.createdAt = 1\<rparr> \<and>
   store.transactions (after (deposit no_mail ''A''
       \<lparr>DepositDto.amount = 50, description = None\<rparr> funded)) =
     store.transactions funded @
     [\<lparr>Transaction.id = 1, Transaction.userId = ''A'', Transaction.type = DEPOSIT,
       Transaction.amount = 50, Transaction.status = COMPLETED,
       Transaction.description = Some ''Deposit'', Transaction.recipientUserId = None,
       Transaction.balanceAfter = Some 150, Transaction.createdAt = 1\<rparr>] \<and>
   balances (after (deposit no_mail ''A'' \<lparr>DepositDto.amount = 50, description = None\<rparr> funded)) =
     balances funded @
     [\<lparr>Balance.id = 1, Balance.userId = ''A'', Balance.transactionId = Some 1,
       Balance.balanceBefore = 100, Balance.balanceAfter = 150,
       Balance.description = Some ''Deposit'', Balance.createdAt = 1\<rparr>] \<and>
   create_Transaction (p\<lparr>TransactionPlain.balanceBefore := b\<rparr>) = create_Transaction p"
  by (simp add: controller_defs service_defs sample_defs lookup_defs Let_def fun_eq_iff)

section \<open>Transfers refused before any lock\<close>

text \<open>
  C8. When the recipient's e-mail address resolves to no user, \<open>transfer\<close> fails with
  "Recipient not found"; when it resolves to the sender, it fails with "Cannot transfer to
  yourself". In both cases no row lock has been taken, no row is stored and every balance
  is what it was.
\<close>

theorem transfer_rejected_before_lock:
  "(findOne_User_by_email db (TransferDto.recipientEmail dto) = None \<longrightarrow>
      result (transfer es uid dto db) = Inl (NotFoundException ''Recipient not found'') \<and>
      lock_order (trace (transfer es uid dto db)) = [] \<and>
      store.transactions (after (transfer es uid dto db)) = store.transactions db \<and>
      balances (after (transfer es uid dto db)) = balances db \<and>
      (\<forall>u. current_balance (after (transfer es uid dto db)) u = current_balance db u)) \<and>
   (\<forall>r. findOne_User_by_email db (TransferDto.recipientEmail dto) = Some r \<and> User.id r = uid \<longrightarrow>
      result (transfer es uid dto db) = Inl (BadRequestException ''Cannot transfer to yourself'') \<and>
      lock_order (trace (transfer es uid dto db)) = [] \<and>
      store.transactions (after (transfer es uid dto db)) = store.transactions db \<and>
      balances (after (transfer es uid dto db)) = balances db \<and>
      (\<forall>u. current_balance (after (transfer es uid dto db)) u = current_balance db u))"
  by (simp add: transfer_def transfer_callback_def service_defs current_balance_def
      findOne_Balance_latest_def)

theorem transfer_rejected_before_lock_witness:
  "findOne_User_by_email funded ''unknown@example.com'' = None \<and>
   result (transfer no_mail ''A''
     \<lparr>recipientEmail = ''unknown@example.com'', amount = 10, description = None\<rparr> funded) =
     Inl (NotFoundException ''Recipient not found'') \<and>
   findOne_User_by_email funded ''a@example.com'' = Some alice \<and> User.id alice = ''A'' \<and>
   result (transfer no_mail ''A''
     \<lparr>recipientEmail = ''a@example.com'', amount = 10, description = None\<rparr> funded) =
     Inl (BadRequestException ''Cannot transfer to yourself'') \<and>
   lock_order (trace (transfer no_mail ''A''
     \<lparr>recipientEmail = ''a@example.com'', amount = 10, description = None\<rparr> funded)) = [] \<and>
   balances (after (transfer no_mail ''A''
     \<lparr>recipientEmail = ''a@example.com'', amount = 10, description = None\<rparr> funded)) =
     balances funded"
proof -
  have none: "findOne_User_by_email funded ''unknown@example.com'' = None"
    by (simp add: sample_defs lookup_defs)
  have self: "findOne_User_by_email funded ''a@example.com'' = Some alice" "User.id alice = ''A''"
    by (simp_all add: sample_defs lookup_defs)
  show ?thesis
    using none self
      transfer_rejected_before_lock [of funded
        "\<lparr>recipientEmail = ''unknown@example.com'', amount = 10, description = None\<rparr>" no_mail "''A''"]
      transfer_rejected_before_lock [of funded
        "\<lparr>recipientEmail = ''a@example.com'', amount = 10, description = None\<rparr>" no_mail "''A''"]
    by simp
qed

section \<open>Invalid amounts\<close>

text \<open>
  C9. A deposit, withdrawal or transfer request whose amount is not positive, has more than
  two decimals or exceeds 1,000,000 is refused by the validation pipe with the messages of
  the violated constraints. The service is not entered: no storage transaction is begun,
  no lock is taken and the store is the one before the request.
\<close>

theorem invalid_amount_rejected:
  assumes "request_amount r \<le> 0 \<or> \<not> IsNumber_maxDecimalPlaces 2 (request_amount r) \<or>
     1000000 < request_amount r"
  shows "\<exists>messages. messages \<noteq> [] \<and>
     TransactionController es user r db = (Inl (ValidationException messages), db, [])"
proof -
  have "ValidationPipe r \<noteq> []"
  proof (cases r)
    case (POST_deposit dto)
    with assms show ?thesis by (auto simp add: validate_DepositDto_Nil)
  next
    case (POST_withdraw dto)
    with assms show ?thesis by (auto simp add: validate_WithdrawDto_Nil)
  next
    case (POST_transfer dto)
    with assms show ?thesis by (auto simp add: validate_TransferDto_Nil)
  qed
  then show ?thesis
    by (cases "ValidationPipe r") (simp_all add: TransactionController_def)
qed

text \<open>A deposit of 0, a withdrawal of 12.345 and a transfer of 1,000,000.01.\<close>

theorem invalid_amount_rejected_witness:
  "request_amount (POST_deposit \<lparr>DepositDto.amount = 0, description = None\<rparr>) \<le> 0 \<and>
   \<not> IsNumber_maxDecimalPlaces 2
      (request_amount (POST_withdraw \<lparr>WithdrawDto.amount = 12.345, description = None\<rparr>)) \<and>
   1000000 < request_amount (POST_transfer
      \<lparr>recipientEmail = ''b@example.com'', amount = 1000000.01, description = None\<rparr>) \<and>
   (\<exists>messages. TransactionController no_mail alice
      (POST_deposit \<lparr>DepositDto.amount = 0, description = None\<rparr>) funded =
      (Inl (ValidationException messages), funded, [])) \<and>
   (\<exists>messages. TransactionController no_mail alice
      (POST_withdraw \<lparr>WithdrawDto.amount = 12.345, description = None\<rparr>) funded =
      (Inl (ValidationException messages), funded, [])) \<and>
   (\<exists>messages. TransactionController no_mail alice
      (POST_transfer \<lparr>recipientEmail = ''b@example.com'', amount = 1000000.01, description = None\<rparr>)
      funded = (Inl (ValidationException messages), funded, []))"
proof -
  have a: "request_amount (POST_deposit \<lparr>DepositDto.amount = 0, description = None\<rparr>) \<le> 0"
    and b: "\<not> IsNumber_maxDecimalPlaces 2
      (request_amount (POST_withdraw \<lparr>WithdrawDto.amount = 12.345, description = None\<rparr>))"
    and c: "1000000 < request_amount (POST_transfer
      \<lparr>recipientEmail = ''b@example.com'', amount = 1000000.01, description = None\<rparr>)"
    by (simp_all add: IsNumber_maxDecimalPlaces_def)
  show ?thesis
    using a b c
      invalid_amount_rejected
        [of "POST_deposit \<lparr>DepositDto.amount = 0, description = None\<rparr>" no_mail alice funded]
      invalid_amount_rejected
        [of "POST_withdraw \<lparr>WithdrawDto.amount = 12.345, description = None\<rparr>" no_mail alice funded]
      invalid_amount_rejected
        [of "POST_transfer \<lparr>recipientEmail = ''b@example.com'', amount = 1000000.01, description = None\<rparr>"
         no_mail alice funded]
    by blast
qed

section \<open>Listing transactions\<close>



end
